theory Spec2Isabelle
  imports Main "HOL-Library.Word"
begin

section \<open>The ZiGate driver (src/adapter/zigate/driver/zigate.ts)\<close>

text \<open>
  The driver is TypeScript running on a single-threaded event loop. The embedding keeps
  the source's names and the order of its statements. What the code does beyond
  returning a value is explicit: the instance fields are a record that is passed in and
  returned, every \<^verbatim>\<open>throw\<close> is the \<open>Inl\<close> of a sum, every
  \<^verbatim>\<open>try/catch\<close> is a case distinction on such a sum, and the observable side
  effects (timers, port writes, emitted events, error logs) are appended to a
  chronological list.
\<close>

subsection \<open>JavaScript values\<close>

text \<open>
  The values that travel in payloads, rule values and extra parameters. Numbers are the
  integers of the protocol (codes, addresses, status bytes). Objects and buffers carry
  the address of their allocation, because \<^verbatim>\<open>===\<close> compares them by
  identity. A property is a data property or an accessor whose getter throws.
\<close>

datatype jserror = JsError (err_name: string) (err_message: string)

datatype 'a jsprop = Data 'a | ThrowingGetter jserror

datatype jsval =
    JUndefined
  | JNull
  | JBool bool
  | JNum int
  | JStr string
  | JBuf nat "8 word list"
  | JObj nat "(string \<times> jsval jsprop) list"

text \<open>\<^verbatim>\<open>`${e}`\<close> and \<^verbatim>\<open>'' + e\<close> on an Error: Error.prototype.toString.\<close>

definition error_to_string :: "jserror \<Rightarrow> string" where
  "error_to_string e =
     (if err_name e = [] then err_message e
      else if err_message e = [] then err_name e
      else err_name e @ '': '' @ err_message e)"

text \<open>ToBoolean, as \<^verbatim>\<open>&&\<close> applies it.\<close>

fun truthy :: "jsval \<Rightarrow> bool" where
  "truthy JUndefined = False"
| "truthy JNull = False"
| "truthy (JBool b) = b"
| "truthy (JNum n) = (n \<noteq> 0)"
| "truthy (JStr s) = (s \<noteq> [])"
| "truthy (JBuf a bs) = True"
| "truthy (JObj a fs) = True"

text \<open>\<^verbatim>\<open>a === b\<close>.\<close>

fun strict_equals :: "jsval \<Rightarrow> jsval \<Rightarrow> bool" where
  "strict_equals JUndefined JUndefined = True"
| "strict_equals JNull JNull = True"
| "strict_equals (JBool a) (JBool b) = (a = b)"
| "strict_equals (JNum a) (JNum b) = (a = b)"
| "strict_equals (JStr a) (JStr b) = (a = b)"
| "strict_equals (JBuf a xs) (JBuf b ys) = (a = b)"
| "strict_equals (JObj a xs) (JObj b ys) = (a = b)"
| "strict_equals x y = False"

text \<open>\<^verbatim>\<open>v == undefined\<close>: true of undefined and of null only.\<close>

fun loosely_undefined :: "jsval \<Rightarrow> bool" where
  "loosely_undefined JUndefined = True"
| "loosely_undefined JNull = True"
| "loosely_undefined v = False"

text \<open>
  \<^verbatim>\<open>v[k]\<close>: a TypeError on undefined and null; on an object the first property
  of that name, undefined when there is none. Only own properties are modelled: a
  primitive or a buffer yields undefined for every name (inherited members such as
  \<^verbatim>\<open>length\<close> or \<^verbatim>\<open>toString\<close> are outside the model).
\<close>

fun get_member :: "jsval \<Rightarrow> string \<Rightarrow> jserror + jsval" where
  "get_member JUndefined k =
     Inl (JsError ''TypeError''
       (''Cannot read properties of undefined (reading '' @ [CHR 0x27] @ k @ [CHR 0x27] @ '')''))"
| "get_member JNull k =
     Inl (JsError ''TypeError''
       (''Cannot read properties of null (reading '' @ [CHR 0x27] @ k @ [CHR 0x27] @ '')''))"
| "get_member (JObj a fs) k =
     (case map_of fs k of
        None \<Rightarrow> Inr JUndefined
      | Some (Data v) \<Rightarrow> Inr v
      | Some (ThrowingGetter e) \<Rightarrow> Inl e)"
| "get_member v k = Inr JUndefined"

subsection \<open>resolve (lines 44-47)\<close>

text \<open>\<^verbatim>\<open>path.split('.')\<close>: the empty string splits into one empty segment.\<close>

fun split_on :: "char \<Rightarrow> string \<Rightarrow> string list" where
  "split_on sep [] = [[]]"
| "split_on sep (c # cs) =
     (if c = sep then [] # split_on sep cs
      else (case split_on sep cs of
              [] \<Rightarrow> [[c]]
            | w # ws \<Rightarrow> (c # w) # ws))"

datatype jspath = PathString string | PathArray "string list"

text \<open>
  \<^verbatim>\<open>properties.reduce((prev, curr) => prev && prev[curr], obj)\<close>: a falsy
  \<open>prev\<close> is handed on unchanged, a truthy one is indexed.
\<close>

fun resolve_reduce :: "string list \<Rightarrow> jsval \<Rightarrow> jserror + jsval" where
  "resolve_reduce [] prev = Inr prev"
| "resolve_reduce (cur # later) prev =
     (if truthy prev
      then (case get_member prev cur of
              Inl e \<Rightarrow> Inl e
            | Inr v \<Rightarrow> resolve_reduce later v)
      else resolve_reduce later prev)"

text \<open>Every caller leaves \<open>separator\<close> at its default \<^verbatim>\<open>'.'\<close>.\<close>

definition resolve :: "jspath \<Rightarrow> jsval \<Rightarrow> jserror + jsval" where
  "resolve path obj =
     (let properties = (case path of PathArray ps \<Rightarrow> ps | PathString s \<Rightarrow> split_on CHR ''.'' s)
      in resolve_reduce properties obj)"

subsection \<open>The catalog's types (commandType.ts, ziGateObject.ts, constants.ts)\<close>

text \<open>
  A rule as \<^verbatim>\<open>ZiGateResponseMatcherRule\<close> declares it. The comparator
  \<open>matcher\<close> is any function of the catalog; it returns a boolean or throws.
  \<open>rule_value\<close> is the field \<^verbatim>\<open>value\<close>, undefined when the rule has none; an
  optional string field that is absent is \<open>None\<close>.
\<close>

record ZiGateResponseMatcherRule =
  receivedProperty :: string
  matcher :: "jsval \<Rightarrow> jsval \<Rightarrow> jserror + bool"
  expectedProperty :: "string option"
  expectedExtraParameter :: "string option"
  rule_value :: jsval

type_synonym ZiGateResponseMatcher = "ZiGateResponseMatcherRule list"

text \<open>
  The command metadata that \<open>sendCommand\<close> reads: \<open>response\<close> is \<open>None\<close>
  when it is not an array, \<open>waitStatus\<close> is \<open>None\<close> when it is undefined.
\<close>

record ZiGateCommandType =
  response :: "ZiGateResponseMatcher list option"
  waitStatus :: "bool option"

text \<open>
  Modelled from the spec: the class ZiGateObject (ziGateObject.ts) is not under src/.
  Section 3 gives a Request Object as a code, a payload and the command metadata, and a
  Decoded Object as a code and a payload. \<open>oid\<close> is the identity of the instance.
\<close>

record ZiGateObject =
  oid :: nat
  code :: int
  payload :: jsval
  command :: ZiGateCommandType

text \<open>
  Modelled from the spec: what a property path sees of a ZiGateObject, its
  \<^verbatim>\<open>code\<close> and its \<^verbatim>\<open>payload\<close> (section 3).
\<close>

definition js_of_ZiGateObject :: "ZiGateObject \<Rightarrow> jsval" where
  "js_of_ZiGateObject z =
     JObj (oid z) [(''code'', Data (JNum (code z))), (''payload'', Data (payload z))]"

text \<open>
  Modelled from the spec: the comparator \<^verbatim>\<open>equal\<close> of commandType.ts, which is
  not under src/. Section 4.2: "equality is the common case"; it is strict equality
  and does not throw.
\<close>

definition equal_js :: "jsval \<Rightarrow> jsval \<Rightarrow> jserror + bool" where
  "equal_js expected received = Inr (strict_equals expected received)"

text \<open>
  The enum members of constants.ts that the driver names. The file is not under src/,
  so their values are parameters.
\<close>

record constants =
  Status :: int
  DataIndication :: int
  LeaveIndication :: int
  DeviceAnnounce :: int
  E_SL_MSG_STATUS_SUCCESS :: int

subsection \<open>waitressValidator (lines 320-338)\<close>

record WaitressMatcher =
  ziGateObject :: ZiGateObject
  rules :: ZiGateResponseMatcher
  extraParameters :: jsval

text \<open>Lines 323-330: the expected value of a rule.\<close>

definition expectedValue :: "WaitressMatcher \<Rightarrow> ZiGateResponseMatcherRule \<Rightarrow> jserror + jsval" where
  "expectedValue m rule =
     (if loosely_undefined (rule_value rule) \<and> expectedProperty rule \<noteq> None
      then (case expectedProperty rule of
              Some p \<Rightarrow> resolve (PathString p) (js_of_ZiGateObject (ziGateObject m))
            | None \<Rightarrow> Inr (rule_value rule))
      else if loosely_undefined (rule_value rule) \<and> expectedExtraParameter rule \<noteq> None
      then (case expectedExtraParameter rule of
              Some p \<Rightarrow> resolve (PathString p) (extraParameters m)
            | None \<Rightarrow> Inr (rule_value rule))
      else Inr (rule_value rule))"

text \<open>Line 331.\<close>

definition receivedValue :: "ZiGateObject \<Rightarrow> ZiGateResponseMatcherRule \<Rightarrow> jserror + jsval" where
  "receivedValue received rule =
     resolve (PathString (receivedProperty rule)) (js_of_ZiGateObject received)"

text \<open>The body of the \<^verbatim>\<open>try\<close> (lines 323-332).\<close>

definition validator_try ::
  "ZiGateObject \<Rightarrow> WaitressMatcher \<Rightarrow> ZiGateResponseMatcherRule \<Rightarrow> jserror + bool" where
  "validator_try received m rule =
     (case expectedValue m rule of
        Inl e \<Rightarrow> Inl e
      | Inr ev \<Rightarrow>
          (case receivedValue received rule of
             Inl e \<Rightarrow> Inl e
           | Inr rv \<Rightarrow> matcher rule ev rv))"

text \<open>The arrow function \<open>validator\<close>: the \<^verbatim>\<open>catch\<close> returns false.\<close>

definition validator ::
  "ZiGateObject \<Rightarrow> WaitressMatcher \<Rightarrow> ZiGateResponseMatcherRule \<Rightarrow> bool" where
  "validator received m rule =
     (case validator_try received m rule of
        Inl e \<Rightarrow> False
      | Inr b \<Rightarrow> b)"

definition waitressValidator :: "ZiGateObject \<Rightarrow> WaitressMatcher \<Rightarrow> bool" where
  "waitressValidator received m = list_all (validator received m) (rules m)"

subsection \<open>The waiter registry (utils/waitress.ts)\<close>

text \<open>
  Modelled from the spec: the class Waitress is not under src/. Sections 2 and 6: the
  registry holds pending expectations keyed by an id that is unique within its
  lifetime; \<^verbatim>\<open>register(matcher, deadline)\<close> returns a handle with the id and a
  \<^verbatim>\<open>start()\<close> that starts the timer and gives the promise;
  \<^verbatim>\<open>remove(id)\<close> removes an expectation; a decoded object settles and removes
  the first expectation whose matcher passes.
\<close>

record Waiter =
  ID :: nat
  waiter_matcher :: WaitressMatcher
  deadline :: nat
  timer_started :: bool

record Waitress =
  pending :: "Waiter list"
  currentID :: nat

definition waitress_waitFor :: "WaitressMatcher \<Rightarrow> nat \<Rightarrow> Waitress \<Rightarrow> nat \<times> Waitress" where
  "waitress_waitFor m t w =
     (currentID w,
      w\<lparr>pending := pending w @
           [\<lparr>ID = currentID w, waiter_matcher = m, deadline = t, timer_started = False\<rparr>],
        currentID := Suc (currentID w)\<rparr>)"

definition timer_startable :: "nat \<Rightarrow> Waitress \<Rightarrow> bool" where
  "timer_startable i w = list_ex (\<lambda>x. ID x = i \<and> \<not> timer_started x) (pending w)"

definition waitress_start :: "nat \<Rightarrow> Waitress \<Rightarrow> Waitress" where
  "waitress_start i w =
     w\<lparr>pending := map (\<lambda>x. if ID x = i then x\<lparr>timer_started := True\<rparr> else x) (pending w)\<rparr>"

definition waitress_remove :: "nat \<Rightarrow> Waitress \<Rightarrow> Waitress" where
  "waitress_remove i w = w\<lparr>pending := filter (\<lambda>x. ID x \<noteq> i) (pending w)\<rparr>"

fun settle_first :: "(Waiter \<Rightarrow> bool) \<Rightarrow> Waiter list \<Rightarrow> Waiter option \<times> Waiter list" where
  "settle_first P [] = (None, [])"
| "settle_first P (x # xs) =
     (if P x then (Some x, xs)
      else (case settle_first P xs of (r, ys) \<Rightarrow> (r, x # ys)))"

definition waitress_resolve :: "ZiGateObject \<Rightarrow> Waitress \<Rightarrow> Waiter option \<times> Waitress" where
  "waitress_resolve received w =
     (case settle_first (\<lambda>x. waitressValidator received (waiter_matcher x)) (pending w) of
        (r, ws) \<Rightarrow> (r, w\<lparr>pending := ws\<rparr>))"

subsection \<open>The driver's state and its effects\<close>

datatype port = SerialPortRef | SocketRef

datatype loglevel = LogError | LogInfo

datatype event =
    EvClose
  | EvDeviceAnnounce jsval jsval
  | EvReceived ZiGateObject
  | EvLeaveIndication ZiGateObject

datatype settlement = Fulfilled ZiGateObject | Rejected jserror

datatype effect =
    Emitted event
  | Wrote port "8 word list"
  | TimerStarted nat
  | TimerCleared nat
  | WaiterSettled nat settlement
  | QueueCleared
  | Logged loglevel string

text \<open>
  The fields of the class that the modelled methods read or write. \<open>serialPort\<close>
  and \<open>socketPort\<close> say whether the field is set; \<open>effects\<close> is the
  chronological list of what the instance has done. The \<^verbatim>\<open>logger.debug\<close> lines
  are not modelled.
\<close>

record ZiGate =
  initialized :: bool
  serialPort :: bool
  socketPort :: bool
  portWrite :: "port option"
  waitress :: Waitress
  effects :: "effect list"

definition perform :: "effect \<Rightarrow> ZiGate \<Rightarrow> ZiGate" where
  "perform e z = z\<lparr>effects := effects z @ [e]\<rparr>"

text \<open>\<^verbatim>\<open>this.emit(...)\<close>: the listeners are external and are taken to return.\<close>

definition emit :: "event \<Rightarrow> ZiGate \<Rightarrow> ZiGate" where
  "emit ev z = perform (Emitted ev) z"

definition logger_error :: "string \<Rightarrow> ZiGate \<Rightarrow> ZiGate" where
  "logger_error msg z = perform (Logged LogError msg) z"

definition logger_info :: "string \<Rightarrow> ZiGate \<Rightarrow> ZiGate" where
  "logger_info msg z = perform (Logged LogInfo msg) z"

text \<open>
  Modelled from the spec: the registry's operations as the instance calls them, with
  the timers among the effects. \<^verbatim>\<open>this.waitress.waitFor(matcher, timeout)\<close>
  (lines 103, 116 and 181) registers a waiter without starting its timer.
\<close>

definition waitFor :: "WaitressMatcher \<Rightarrow> nat \<Rightarrow> ZiGate \<Rightarrow> nat \<times> ZiGate" where
  "waitFor m t z =
     (case waitress_waitFor m t (waitress z) of
        (i, w) \<Rightarrow> (i, z\<lparr>waitress := w\<rparr>))"

text \<open>
  Modelled from the spec: \<^verbatim>\<open>handle.start()\<close> starts the timer of a registered
  waiter that has none, and gives the waiter's promise.
\<close>

definition start :: "nat \<Rightarrow> ZiGate \<Rightarrow> ZiGate" where
  "start i z =
     (if timer_startable i (waitress z)
      then perform (TimerStarted i) (z\<lparr>waitress := waitress_start i (waitress z)\<rparr>)
      else z)"

text \<open>
  Modelled from the spec: \<^verbatim>\<open>this.waitress.remove(id)\<close> removes the waiter, and
  its timer with it.
\<close>

definition remove :: "nat \<Rightarrow> ZiGate \<Rightarrow> ZiGate" where
  "remove i z =
     (if list_ex (\<lambda>x. ID x = i) (pending (waitress z))
      then perform (TimerCleared i) (z\<lparr>waitress := waitress_remove i (waitress z)\<rparr>)
      else z)"

text \<open>
  Modelled from the spec: \<^verbatim>\<open>this.waitress.resolve(ziGateObject)\<close> (line 279)
  fulfils the promise of the waiter it settles.
\<close>

definition resolve_waiters :: "ZiGateObject \<Rightarrow> ZiGate \<Rightarrow> ZiGate" where
  "resolve_waiters received z =
     (case waitress_resolve received (waitress z) of
        (None, w) \<Rightarrow> z\<lparr>waitress := w\<rparr>
      | (Some x, w) \<Rightarrow>
          perform (WaiterSettled (ID x) (Fulfilled received)) (z\<lparr>waitress := w\<rparr>))"

subsection \<open>sendCommand (lines 74-138)\<close>

text \<open>The constant \<open>timeouts\<close> (lines 28-31).\<close>

definition timeouts_reset :: nat where
  "timeouts_reset = 30000"

definition timeouts_default :: nat where
  "timeouts_default = 10000"

text \<open>\<^verbatim>\<open>timeout || timeouts.default\<close>: an absent timeout and 0 are falsy.\<close>

definition timeout_or_default :: "nat option \<Rightarrow> nat" where
  "timeout_or_default timeout =
     (case timeout of
        None \<Rightarrow> timeouts_default
      | Some t \<Rightarrow> if t = 0 then timeouts_default else t)"

text \<open>
  What \<open>sendCommand\<close> calls outside this file: the catalog
  (\<^verbatim>\<open>ZiGateObject.createRequest\<close>), the codec
  (\<^verbatim>\<open>toZiGateFrame().toBuffer()\<close>), the port's \<^verbatim>\<open>write\<close>, which may
  throw, and the event loop. \<open>await_settlement\<close> is what happens while the command is
  suspended on line 124: the other handlers change the instance in any way, and the
  awaited promise is fulfilled, is rejected, or never settles (\<open>None\<close>).
\<close>

record send_env =
  createRequest :: "int \<Rightarrow> jsval \<Rightarrow> jserror + ZiGateObject"
  toBuffer :: "ZiGateObject \<Rightarrow> jserror + 8 word list"
  port_write :: "port \<Rightarrow> 8 word list \<Rightarrow> jserror option"
  await_settlement :: "nat \<Rightarrow> ZiGate \<Rightarrow> ZiGate \<times> settlement option"

text \<open>
  How the promise that \<open>sendCommand\<close> returns ends. A waiter's promise is named by
  the waiter's id. \<open>Race ws\<close> is \<^verbatim>\<open>Promise.race\<close> over the promises \<open>ws\<close>,
  returned without \<^verbatim>\<open>await\<close>, so the \<^verbatim>\<open>catch\<close> does not see its
  rejection. \<open>NeverResumes\<close>: the awaited status promise never settles.
\<close>

datatype outcome =
    Resolves ZiGateObject
  | RejectsWithObject ZiGateObject
  | RejectsWithError jserror
  | Race "nat list"
  | NeverResumes

text \<open>
  \<^verbatim>\<open>Promise.race\<close>: \<open>settled p\<close> is the instant at which the promise \<open>p\<close>
  settles and how, \<open>None\<close> when it never does. The race settles as its earliest
  member; over no promise it never settles.
\<close>

fun promise_race :: "(nat \<Rightarrow> (nat \<times> settlement) option) \<Rightarrow> nat list \<Rightarrow> (nat \<times> settlement) option" where
  "promise_race settled [] = None"
| "promise_race settled (p # ps) =
     (case settled p of
        None \<Rightarrow> promise_race settled ps
      | Some a \<Rightarrow>
          (case promise_race settled ps of
             None \<Rightarrow> Some a
           | Some b \<Rightarrow> if fst a \<le> fst b then Some a else Some b))"

text \<open>
  Lines 102-106, the \<^verbatim>\<open>forEach\<close> over the response rule-sets: each waiter is
  registered, its id pushed, and its \<^verbatim>\<open>start()\<close> called for the promise.
\<close>

fun register_responses ::
  "ZiGateObject \<Rightarrow> jsval \<Rightarrow> nat \<Rightarrow> ZiGateResponseMatcher list \<Rightarrow>
   nat list \<times> nat list \<times> ZiGate \<Rightarrow> nat list \<times> nat list \<times> ZiGate" where
  "register_responses zgo extra t [] acc = acc"
| "register_responses zgo extra t (rs # rss) (waiters, waitersId, z) =
     (case waitFor \<lparr>ziGateObject = zgo, rules = rs, extraParameters = extra\<rparr> t z of
        (waiter, z1) \<Rightarrow>
          register_responses zgo extra t rss
            (waiters @ [waiter], waitersId @ [waiter], start waiter z1))"

text \<open>Lines 111-114.\<close>

definition ruleStatus :: "constants \<Rightarrow> ZiGateObject \<Rightarrow> ZiGateResponseMatcher" where
  "ruleStatus c zgo =
     [\<lparr>receivedProperty = ''code'', matcher = equal_js, expectedProperty = None,
       expectedExtraParameter = None, rule_value = JNum (Status c)\<rparr>,
      \<lparr>receivedProperty = ''payload.packetType'', matcher = equal_js, expectedProperty = None,
       expectedExtraParameter = None, rule_value = JNum (code zgo)\<rparr>]"

text \<open>Lines 133-136, the \<^verbatim>\<open>catch\<close>: log, and reject with a new Error.\<close>

definition sendCommand_catch :: "jserror \<Rightarrow> ZiGate \<Rightarrow> outcome \<times> ZiGate" where
  "sendCommand_catch e z =
     (RejectsWithError (JsError ''Error'' (''sendCommand error: '' @ error_to_string e)),
      logger_error (''sendCommand error '' @ error_to_string e) z)"

text \<open>
  The command runs to its first suspension: either it has settled, or it waits on line
  124 for the status promise, with the locals \<open>waiters\<close> and \<open>waitersId\<close>.
\<close>

datatype progress = Settled outcome | AwaitStatus nat "nat list" "nat list"

text \<open>Line 121: \<^verbatim>\<open>this.portWrite!.write(sendBuffer)\<close>; an unset port is a TypeError.\<close>

definition write_port :: "send_env \<Rightarrow> 8 word list \<Rightarrow> ZiGate \<Rightarrow> jserror option \<times> ZiGate" where
  "write_port env sendBuffer z =
     (case portWrite z of
        None \<Rightarrow>
          (Some (JsError ''TypeError'' ''Cannot read properties of undefined (reading 'write')''), z)
      | Some p \<Rightarrow>
          (case port_write env p sendBuffer of
             Some e \<Rightarrow> (Some e, z)
           | None \<Rightarrow> (None, perform (Wrote p sendBuffer) z)))"

text \<open>Lines 101-107: no response waiter when disabled or when \<open>response\<close> is no array.\<close>

definition response_waiters ::
  "ZiGateObject \<Rightarrow> jsval \<Rightarrow> nat option \<Rightarrow> bool \<Rightarrow> ZiGate \<Rightarrow> nat list \<times> nat list \<times> ZiGate" where
  "response_waiters zgo extra timeout disableResponse z =
     (if \<not> disableResponse \<and> response (command zgo) \<noteq> None
      then (case response (command zgo) of
              Some rss \<Rightarrow>
                register_responses zgo extra (timeout_or_default timeout) rss ([], [], z)
            | None \<Rightarrow> ([], [], z))
      else ([], [], z))"

text \<open>
  Lines 109-118: \<open>resultPromise\<close>, the promise of the status waiter, started at
  once; it stays undefined when \<open>waitStatus\<close> is false.
\<close>

definition status_waiter ::
  "constants \<Rightarrow> ZiGateObject \<Rightarrow> nat option \<Rightarrow> ZiGate \<Rightarrow> nat option \<times> ZiGate" where
  "status_waiter c zgo timeout z =
     (if waitStatus (command zgo) \<noteq> Some False
      then (case waitFor \<lparr>ziGateObject = zgo, rules = ruleStatus c zgo,
                           extraParameters = JUndefined\<rparr>
                   (timeout_or_default timeout) z of
              (statusWaiter, z1) \<Rightarrow> (Some statusWaiter, start statusWaiter z1))
      else (None, z))"

text \<open>Lines 93-123, the synchronous part.\<close>

definition sendCommand_start ::
  "constants \<Rightarrow> send_env \<Rightarrow> int \<Rightarrow> jsval \<Rightarrow> nat option \<Rightarrow> jsval \<Rightarrow> bool \<Rightarrow> ZiGate \<Rightarrow>
   progress \<times> ZiGate" where
  "sendCommand_start c env cmd pl timeout extra disableResponse z =
     (case createRequest env cmd pl of
        Inl e \<Rightarrow> (case sendCommand_catch e z of (out, z') \<Rightarrow> (Settled out, z'))
      | Inr zgo \<Rightarrow>
     (case toBuffer env zgo of
        Inl e \<Rightarrow> (case sendCommand_catch e z of (out, z') \<Rightarrow> (Settled out, z'))
      | Inr sendBuffer \<Rightarrow>
     (case response_waiters zgo extra timeout disableResponse z of
        (waiters, waitersId, z1) \<Rightarrow>
     (case status_waiter c zgo timeout z1 of
        (resultPromise, z2) \<Rightarrow>
     (case write_port env sendBuffer z2 of
        (Some e, z3) \<Rightarrow> (case sendCommand_catch e z3 of (out, z') \<Rightarrow> (Settled out, z'))
      | (None, z3) \<Rightarrow>
          (case resultPromise of
             Some p \<Rightarrow>
               if waitStatus (command zgo) \<noteq> Some False
               then (AwaitStatus p waiters waitersId, z3)
               else (Settled (Race waiters), z3)
           | None \<Rightarrow> (Settled (Race waiters), z3)))))))"

text \<open>Lines 124-136, after the status promise has settled.\<close>

definition sendCommand_resume ::
  "constants \<Rightarrow> settlement option \<Rightarrow> nat list \<Rightarrow> nat list \<Rightarrow> ZiGate \<Rightarrow> outcome \<times> ZiGate" where
  "sendCommand_resume c settled waiters waitersId z =
     (case settled of
        None \<Rightarrow> (NeverResumes, z)
      | Some (Rejected e) \<Rightarrow> sendCommand_catch e z
      | Some (Fulfilled statusResponse) \<Rightarrow>
          (case get_member (payload statusResponse) ''status'' of
             Inl e \<Rightarrow> sendCommand_catch e z
           | Inr status \<Rightarrow>
               if \<not> strict_equals status (JNum (E_SL_MSG_STATUS_SUCCESS c))
               then (RejectsWithObject statusResponse, fold remove waitersId z)
               else if length waiters = 0
               then (Resolves statusResponse, z)
               else (Race waiters, z)))"

text \<open>
  The job that \<^verbatim>\<open>this.queue.execute\<close> runs. The queue itself (utils, not under
  src/) is not modelled: \<open>sendCommand\<close> is one execution of the job.
\<close>

definition sendCommand ::
  "constants \<Rightarrow> send_env \<Rightarrow> int \<Rightarrow> jsval \<Rightarrow> nat option \<Rightarrow> jsval \<Rightarrow> bool \<Rightarrow> ZiGate \<Rightarrow>
   outcome \<times> ZiGate" where
  "sendCommand c env cmd pl timeout extra disableResponse z =
     (case sendCommand_start c env cmd pl timeout extra disableResponse z of
        (Settled out, z1) \<Rightarrow> (out, z1)
      | (AwaitStatus p waiters waitersId, z1) \<Rightarrow>
          (case await_settlement env p z1 of
             (z2, settled) \<Rightarrow> sendCommand_resume c settled waiters waitersId z2))"

subsection \<open>close (lines 153-175) and the port's events (lines 243-262)\<close>

text \<open>
  What \<open>close\<close> calls outside this file. \<open>asyncFlushAndClose\<close> is what happens
  while the call is suspended on line 163: the port is flushed and closed, the
  listeners of the events that the port fires meanwhile change the instance
  (\<open>onPortClose\<close> is the listener of its close event, lines 203 and 241), and the
  awaited promise is fulfilled, or rejected with \<open>Some error\<close>. \<open>destroy\<close> is what
  \<^verbatim>\<open>this.socketPort.destroy()\<close> on line 170 has done to the instance when it
  returns.
\<close>

record close_env =
  asyncFlushAndClose :: "ZiGate \<Rightarrow> ZiGate \<times> jserror option"
  destroy :: "ZiGate \<Rightarrow> ZiGate"

text \<open>The result is \<open>Inl error\<close> when \<open>close\<close> throws (line 167).\<close>

definition close :: "close_env \<Rightarrow> ZiGate \<Rightarrow> (jserror + unit) \<times> ZiGate" where
  "close env z =
     (let z1 = perform QueueCleared (logger_info ''closing'' z) in
      if initialized z1
      then (let z2 = z1\<lparr>portWrite := None, initialized := False\<rparr> in
            if serialPort z2
            then (case asyncFlushAndClose env z2 of
                    (z3, Some error) \<Rightarrow> (Inl error, emit EvClose z3)
                  | (z3, None) \<Rightarrow> (Inr (), emit EvClose z3))
            else (Inr (), emit EvClose (if socketPort z2 then destroy env z2 else z2)))
      else (Inr (), emit EvClose z1))"

text \<open>
  The instance of an initialized driver when \<open>close\<close> reaches line 161, where it
  releases the port.
\<close>

definition releasing :: "ZiGate \<Rightarrow> ZiGate" where
  "releasing z =
     (perform QueueCleared (logger_info ''closing'' z))\<lparr>portWrite := None, initialized := False\<rparr>"

definition onPortError :: "jserror \<Rightarrow> ZiGate \<Rightarrow> ZiGate" where
  "onPortError error z = logger_error (''Port error: '' @ error_to_string error) z"

definition onPortClose :: "ZiGate \<Rightarrow> ZiGate" where
  "onPortClose z = emit EvClose (z\<lparr>initialized := False\<rparr>)"

text \<open>
  Lines 243-248, the socket's \<^verbatim>\<open>'error'\<close> listener of \<open>openSocketPort\<close>. It
  also rejects the promise of \<open>open\<close>, which is not part of the instance.
\<close>

definition socketPort_on_error :: "jserror \<Rightarrow> ZiGate \<Rightarrow> ZiGate" where
  "socketPort_on_error error z =
     (logger_error (''Socket error '' @ error_to_string error) z)\<lparr>initialized := False\<rparr>"

subsection \<open>onSerialData (lines 264-314)\<close>

text \<open>
  Node's \<^verbatim>\<open>buf.readUInt16LE(offset)\<close> and \<^verbatim>\<open>buf.slice(start, end)\<close>, called
  on whatever \<^verbatim>\<open>payload.payload\<close> is: a TypeError when it is not a buffer, a
  RangeError when the two bytes are not there.
\<close>

definition not_a_buffer :: "jsval \<Rightarrow> string \<Rightarrow> jserror" where
  "not_a_buffer v method =
     (if loosely_undefined v
      then JsError ''TypeError''
             (''Cannot read properties of undefined (reading '' @ [CHR 0x27] @ method @ [CHR 0x27] @ '')'')
      else JsError ''TypeError'' (method @ '' is not a function''))"

definition readUInt16LE :: "jsval \<Rightarrow> nat \<Rightarrow> jserror + int" where
  "readUInt16LE v offset =
     (case v of
        JBuf a bs \<Rightarrow>
          if offset + 2 \<le> length bs
          then Inr (uint (bs ! offset) + 256 * uint (bs ! (offset + 1)))
          else Inl (JsError ''RangeError'' ''The value of offset is out of range'')
      | _ \<Rightarrow> Inl (not_a_buffer v ''readUInt16LE''))"

definition slice :: "jsval \<Rightarrow> nat \<Rightarrow> nat \<Rightarrow> jserror + 8 word list" where
  "slice v from until =
     (case v of
        JBuf a bs \<Rightarrow> Inr (take (until - from) (drop from bs))
      | _ \<Rightarrow> Inl (not_a_buffer v ''slice''))"

text \<open>
  What \<open>onSerialData\<close> calls outside this file: the constructor of ZiGateFrame,
  \<^verbatim>\<open>frame.readMsgCode()\<close>, \<^verbatim>\<open>ZiGateObject.fromZiGateFrame\<close> and
  \<^verbatim>\<open>new Buffalo(bytes).readIeeeAddr()\<close>. Each returns or throws. \<open>'f\<close> is the
  type of a frame.
\<close>

record 'f data_env =
  newFrame :: "8 word list \<Rightarrow> jserror + 'f"
  readMsgCode :: "'f \<Rightarrow> jserror + int"
  fromZiGateFrame :: "'f \<Rightarrow> jserror + ZiGateObject"
  readIeeeAddr :: "8 word list \<Rightarrow> jserror + jsval"

text \<open>
  A block that may throw gives the error, if any, and the state reached when it was
  thrown; \<^verbatim>\<open>try { body } catch (error) { handler }\<close> runs the handler there.
\<close>

definition try_catch ::
  "jserror option \<times> ZiGate \<Rightarrow> (jserror \<Rightarrow> ZiGate \<Rightarrow> jserror option \<times> ZiGate) \<Rightarrow>
   jserror option \<times> ZiGate" where
  "try_catch body handler =
     (case body of
        (Some error, z) \<Rightarrow> handler error z
      | (None, z) \<Rightarrow> (None, z))"

text \<open>Lines 286-291, the case \<^verbatim>\<open>0x0013\<close> of the cluster.\<close>

definition device_announce_from_indication ::
  "'f data_env \<Rightarrow> ZiGateObject \<Rightarrow> ZiGate \<Rightarrow> jserror option \<times> ZiGate" where
  "device_announce_from_indication env zgo z =
     (case get_member (payload zgo) ''payload'' of
        Inl e \<Rightarrow> (Some e, z)
      | Inr pp \<Rightarrow>
     (case readUInt16LE pp 1 of
        Inl e \<Rightarrow> (Some e, z)
      | Inr networkAddress \<Rightarrow>
     (case slice pp 3 11 of
        Inl e \<Rightarrow> (Some e, z)
      | Inr bytes \<Rightarrow>
     (case readIeeeAddr env bytes of
        Inl e \<Rightarrow> (Some e, z)
      | Inr ieeeAddr \<Rightarrow> (None, emit (EvDeviceAnnounce (JNum networkAddress) ieeeAddr) z)))))"

text \<open>Lines 281-307, the \<^verbatim>\<open>switch\<close> on the message code.\<close>

definition dispatch ::
  "constants \<Rightarrow> 'f data_env \<Rightarrow> int \<Rightarrow> ZiGateObject \<Rightarrow> ZiGate \<Rightarrow> jserror option \<times> ZiGate" where
  "dispatch c env msg zgo z =
     (if msg = DataIndication c
      then (case get_member (payload zgo) ''profileID'' of
              Inl e \<Rightarrow> (Some e, z)
            | Inr profileID \<Rightarrow>
                if strict_equals profileID (JNum 0)
                then (case get_member (payload zgo) ''clusterID'' of
                        Inl e \<Rightarrow> (Some e, z)
                      | Inr clusterID \<Rightarrow>
                          if strict_equals clusterID (JNum 19)
                          then device_announce_from_indication env zgo z
                          else (None, z))
                else if strict_equals profileID (JNum 260)
                then (None, emit (EvReceived zgo) z)
                else (None, z))
      else if msg = LeaveIndication c
      then (None, emit (EvLeaveIndication zgo) z)
      else if msg = DeviceAnnounce c
      then (case get_member (payload zgo) ''shortAddress'' of
              Inl e \<Rightarrow> (Some e, z)
            | Inr shortAddress \<Rightarrow>
                (case get_member (payload zgo) ''ieee'' of
                   Inl e \<Rightarrow> (Some e, z)
                 | Inr ieee \<Rightarrow> (None, emit (EvDeviceAnnounce shortAddress ieee) z)))
      else (None, z))"

text \<open>Lines 277-307, the body of the inner \<^verbatim>\<open>try\<close>.\<close>

definition decode_and_dispatch ::
  "constants \<Rightarrow> 'f data_env \<Rightarrow> 'f \<Rightarrow> int \<Rightarrow> ZiGate \<Rightarrow> jserror option \<times> ZiGate" where
  "decode_and_dispatch c env frame msg z =
     (case fromZiGateFrame env frame of
        Inl e \<Rightarrow> (Some e, z)
      | Inr zgo \<Rightarrow> dispatch c env msg zgo (resolve_waiters zgo z))"

text \<open>
  Lines 268-310, the body of the outer \<^verbatim>\<open>try\<close>. The test on line 269 is never
  true of the result of \<^verbatim>\<open>new ZiGateFrame\<close>.
\<close>

definition parse_and_handle ::
  "constants \<Rightarrow> 'f data_env \<Rightarrow> 8 word list \<Rightarrow> ZiGate \<Rightarrow> jserror option \<times> ZiGate" where
  "parse_and_handle c env buffer z =
     (case newFrame env buffer of
        Inl e \<Rightarrow> (Some e, z)
      | Inr frame \<Rightarrow>
          (case readMsgCode env frame of
             Inl e \<Rightarrow> (Some e, z)
           | Inr msg \<Rightarrow>
               try_catch (decode_and_dispatch c env frame msg z)
                 (\<lambda>error z'. (None, logger_error (''Parsing error: '' @ error_to_string error) z'))))"

text \<open>The handler: the first component is what it throws to its caller, if anything.\<close>

definition onSerialData ::
  "constants \<Rightarrow> 'f data_env \<Rightarrow> 8 word list \<Rightarrow> ZiGate \<Rightarrow> jserror option \<times> ZiGate" where
  "onSerialData c env buffer z =
     try_catch (parse_and_handle c env buffer z)
       (\<lambda>error z'. (None, logger_error
          (''Error while parsing Frame '' @ [CHR 0x27] @ error_to_string error @ [CHR 0x27]) z'))"

text \<open>The effects that fail a command: a waiter settled with a rejection.\<close>

fun fails_a_command :: "effect \<Rightarrow> bool" where
  "fails_a_command (WaiterSettled i (Rejected e)) = True"
| "fails_a_command e = False"

fun is_emission :: "effect \<Rightarrow> bool" where
  "is_emission (Emitted ev) = True"
| "is_emission e = False"

subsection \<open>The ids of a call's response waiters\<close>

text \<open>
  The registry numbers its waiters from \<open>currentID\<close>, so the response waiters of a
  call get the next ids, one per declared rule-set.
\<close>

definition response_ids :: "ZiGateObject \<Rightarrow> bool \<Rightarrow> ZiGate \<Rightarrow> nat list" where
  "response_ids zgo disableResponse z =
     (if \<not> disableResponse
      then (case response (command zgo) of
              Some rss \<Rightarrow> [currentID (waitress z) ..< currentID (waitress z) + length rss]
            | None \<Rightarrow> [])
      else [])"

subsection \<open>Example data\<close>

text \<open>
  Values for the constants, a request, a status frame whose payload has an accessor
  that throws, some rules, and an open instance with an empty registry.
\<close>

definition example_constants :: constants where
  "example_constants =
     \<lparr>Status = 32768, DataIndication = 32770, LeaveIndication = 32840, DeviceAnnounce = 77,
      E_SL_MSG_STATUS_SUCCESS = 0\<rparr>"

definition no_metadata :: ZiGateCommandType where
  "no_metadata = \<lparr>response = None, waitStatus = None\<rparr>"

definition example_request :: ZiGateObject where
  "example_request =
     \<lparr>oid = 1, code = 16, payload = JObj 2 [(''foo'', Data (JNum 1))], command = no_metadata\<rparr>"

definition example_status :: ZiGateObject where
  "example_status =
     \<lparr>oid = 3, code = 32768,
      payload = JObj 4 [(''status'', Data (JNum 0)), (''packetType'', Data (JNum 16)),
                        (''broken'', ThrowingGetter (JsError ''Error'' ''boom''))],
      command = no_metadata\<rparr>"

definition rule_both_undefined :: ZiGateResponseMatcherRule where
  "rule_both_undefined =
     \<lparr>receivedProperty = ''payload.sequence'', matcher = equal_js,
      expectedProperty = Some ''payload.sequence'', expectedExtraParameter = None,
      rule_value = JUndefined\<rparr>"

definition rule_broken_path :: ZiGateResponseMatcherRule where
  "rule_broken_path =
     \<lparr>receivedProperty = ''payload.broken'', matcher = equal_js,
      expectedProperty = None, expectedExtraParameter = None, rule_value = JNum 1\<rparr>"

definition rule_throwing_comparator :: ZiGateResponseMatcherRule where
  "rule_throwing_comparator =
     \<lparr>receivedProperty = ''code'', matcher = (\<lambda>expected received. Inl (JsError ''Error'' ''compare'')),
      expectedProperty = None, expectedExtraParameter = None, rule_value = JNum 32768\<rparr>"

definition rule_missing_received :: ZiGateResponseMatcherRule where
  "rule_missing_received =
     \<lparr>receivedProperty = ''payload.sequence'', matcher = equal_js,
      expectedProperty = None, expectedExtraParameter = None, rule_value = JNum 5\<rparr>"

definition example_matcher :: "ZiGateResponseMatcher \<Rightarrow> WaitressMatcher" where
  "example_matcher rs = \<lparr>ziGateObject = example_request, rules = rs, extraParameters = JUndefined\<rparr>"

definition open_serial :: ZiGate where
  "open_serial =
     \<lparr>initialized = True, serialPort = True, socketPort = False, portWrite = Some SerialPortRef,
      waitress = \<lparr>pending = [], currentID = 0\<rparr>, effects = []\<rparr>"

definition unplugged :: jserror where
  "unplugged = JsError ''Error'' ''device unplugged''"

definition open_socket :: ZiGate where
  "open_socket =
     \<lparr>initialized = True, serialPort = False, socketPort = True, portWrite = Some SocketRef,
      waitress = \<lparr>pending = [], currentID = 0\<rparr>, effects = []\<rparr>"

text \<open>
  Two ports. The first closes, and fires its close event when it does: the
  listener registered on line 203 runs while \<open>close\<close> is suspended. The second fails
  to close and fires nothing. A socket fires its close event after
  \<^verbatim>\<open>destroy()\<close> has returned.
\<close>

definition port_closes :: close_env where
  "port_closes =
     \<lparr>asyncFlushAndClose = (\<lambda>z. (onPortClose z, None)), destroy = (\<lambda>z. z)\<rparr>"

definition port_fails :: "jserror \<Rightarrow> close_env" where
  "port_fails error =
     \<lparr>asyncFlushAndClose = (\<lambda>z. (z, Some error)), destroy = (\<lambda>z. z)\<rparr>"

definition rule_packet_type :: ZiGateResponseMatcherRule where
  "rule_packet_type =
     \<lparr>receivedProperty = ''payload.packetType'', matcher = equal_js,
      expectedProperty = None, expectedExtraParameter = None, rule_value = JNum 16\<rparr>"

text \<open>
  A codec whose frames are byte strings: an empty chunk is no frame, a frame of fewer
  than three bytes cannot be decoded, every other frame decodes to the status frame.
\<close>

definition example_codec :: "(8 word list) data_env" where
  "example_codec =
     \<lparr>newFrame = (\<lambda>buffer. if buffer = [] then Inl (JsError ''Error'' ''empty frame'') else Inr buffer),
      readMsgCode = (\<lambda>frame. Inr 32768),
      fromZiGateFrame = (\<lambda>frame. if length frame < 3 then Inl (JsError ''Error'' ''short frame'')
                                   else Inr example_status),
      readIeeeAddr = (\<lambda>bytes. Inr (JStr ''0x0000000000000000''))\<rparr>"

text \<open>
  A catalog of three commands: 16 declares one response rule-set and wants the status,
  17 declares no response and wants the status, 18 declares one response rule-set and
  no status. The environment encodes every request as three bytes, its port accepts
  every write, and while the command is suspended the frame \<open>inbound\<close> arrives and
  fulfils the status promise.
\<close>

definition rule_version_list :: ZiGateResponseMatcherRule where
  "rule_version_list =
     \<lparr>receivedProperty = ''code'', matcher = equal_js, expectedProperty = None,
      expectedExtraParameter = None, rule_value = JNum 32784\<rparr>"

definition example_catalog :: "int \<Rightarrow> jsval \<Rightarrow> jserror + ZiGateObject" where
  "example_catalog cmd pl =
     (if cmd = 16
      then Inr \<lparr>oid = 1, code = 16, payload = pl,
                command = \<lparr>response = Some [[rule_version_list]], waitStatus = None\<rparr>\<rparr>
      else if cmd = 17
      then Inr \<lparr>oid = 1, code = 17, payload = pl,
                command = \<lparr>response = None, waitStatus = None\<rparr>\<rparr>
      else if cmd = 18
      then Inr \<lparr>oid = 1, code = 18, payload = pl,
                command = \<lparr>response = Some [[rule_version_list]], waitStatus = Some False\<rparr>\<rparr>
      else Inl (JsError ''Error'' ''unknown command''))"

definition status_frame :: "int \<Rightarrow> int \<Rightarrow> ZiGateObject" where
  "status_frame cmd st =
     \<lparr>oid = 5, code = 32768,
      payload = JObj 6 [(''status'', Data (JNum st)), (''packetType'', Data (JNum cmd))],
      command = no_metadata\<rparr>"

definition example_env :: "ZiGateObject \<Rightarrow> send_env" where
  "example_env inbound =
     \<lparr>createRequest = example_catalog,
      toBuffer = (\<lambda>zgo. Inr [1, 2, 3]),
      port_write = (\<lambda>p bytes. None),
      await_settlement = (\<lambda>p z. (resolve_waiters inbound z, Some (Fulfilled inbound)))\<rparr>"

definition example_request16 :: ZiGateObject where
  "example_request16 =
     \<lparr>oid = 1, code = 16, payload = JUndefined,
      command = \<lparr>response = Some [[rule_version_list]], waitStatus = None\<rparr>\<rparr>"

definition example_suspended :: ZiGate where
  "example_suspended =
     open_serial\<lparr>waitress :=
        \<lparr>pending =
           [\<lparr>ID = 0,
             waiter_matcher = \<lparr>ziGateObject = example_request16,
                rules = [rule_version_list], extraParameters = JUndefined\<rparr>,
             deadline = 10000, timer_started = True\<rparr>,
            \<lparr>ID = 1,
             waiter_matcher = \<lparr>ziGateObject = example_request16,
                rules = ruleStatus example_constants example_request16,
                extraParameters = JUndefined\<rparr>,
             deadline = 10000, timer_started = True\<rparr>],
         currentID = 2\<rparr>,
        effects := [TimerStarted 0, TimerStarted 1, Wrote SerialPortRef [1, 2, 3]]\<rparr>"

section \<open>Properties\<close>

subsection \<open>Auxiliary facts\<close>

lemmas example_defs = example_constants_def no_metadata_def example_request_def example_status_def
  rule_both_undefined_def rule_broken_path_def rule_throwing_comparator_def rule_missing_received_def
  rule_packet_type_def example_matcher_def

lemmas validator_defs = validator_def validator_try_def expectedValue_def receivedValue_def
  resolve_def js_of_ZiGateObject_def equal_js_def waitressValidator_def

lemma strict_equals_undefined: "strict_equals JUndefined v = (v = JUndefined)"
  by (cases v) simp_all

lemma strict_equals_undefined2: "strict_equals v JUndefined = (v = JUndefined)"
  by (cases v) simp_all

lemma waitFor_startable:
  "waitFor m t z = (i, z1) \<Longrightarrow> timer_startable i (waitress z1)"
  by (auto simp: waitFor_def waitress_waitFor_def timer_startable_def)

lemma waitFor_facts:
  "waitFor m t z = (i, z1) \<Longrightarrow>
     i = currentID (waitress z) \<and>
     currentID (waitress z1) = Suc (currentID (waitress z)) \<and>
     map ID (pending (waitress z1)) = map ID (pending (waitress z)) @ [i] \<and>
     effects z1 = effects z \<and> initialized z1 = initialized z \<and> portWrite z1 = portWrite z"
  by (auto simp: waitFor_def waitress_waitFor_def)

lemma start_facts:
  "timer_startable i (waitress z) \<Longrightarrow>
     currentID (waitress (start i z)) = currentID (waitress z) \<and>
     map ID (pending (waitress (start i z))) = map ID (pending (waitress z)) \<and>
     effects (start i z) = effects z @ [TimerStarted i] \<and>
     initialized (start i z) = initialized z \<and> portWrite (start i z) = portWrite z"
  by (auto simp: start_def waitress_start_def perform_def)

lemma upt_shift: "[n..<Suc (n + k)] = n # [Suc n..<Suc (n + k)]"
  by (simp add: upt_conv_Cons)

lemma register_responses_facts:
  "register_responses zgo extra t rss (ws, ids, z) = (ws', ids', z') \<Longrightarrow>
     (let new = [currentID (waitress z) ..< currentID (waitress z) + length rss] in
      ws' = ws @ new \<and> ids' = ids @ new \<and>
      currentID (waitress z') = currentID (waitress z) + length rss \<and>
      map ID (pending (waitress z')) = map ID (pending (waitress z)) @ new \<and>
      effects z' = effects z @ map TimerStarted new \<and>
      initialized z' = initialized z \<and> portWrite z' = portWrite z)"
proof (induction rss arbitrary: ws ids z)
  case Nil
  then show ?case by simp
next
  case (Cons rs rss)
  obtain i z1 where w: "waitFor \<lparr>ziGateObject = zgo, rules = rs, extraParameters = extra\<rparr> t z = (i, z1)"
    by (cases "waitFor \<lparr>ziGateObject = zgo, rules = rs, extraParameters = extra\<rparr> t z")
  from Cons.prems w have r: "register_responses zgo extra t rss (ws @ [i], ids @ [i], start i z1) = (ws', ids', z')"
    by simp
  note f1 = waitFor_facts [OF w]
  note f2 = start_facts [OF waitFor_startable [OF w]]
  from Cons.IH [OF r] f1 f2 show ?case
    by (simp add: Let_def upt_shift del: upt_Suc)
qed


lemma perform_facts:
  "waitress (perform e z) = waitress z \<and> effects (perform e z) = effects z @ [e] \<and>
   initialized (perform e z) = initialized z \<and> portWrite (perform e z) = portWrite z"
  by (simp add: perform_def)

lemma response_waiters_facts:
  assumes "response_waiters zgo extra timeout dr z = (ws, ids, z1)"
  shows "ws = response_ids zgo dr z \<and> ids = response_ids zgo dr z \<and>
         currentID (waitress z1) = currentID (waitress z) + length (response_ids zgo dr z) \<and>
         map ID (pending (waitress z1)) = map ID (pending (waitress z)) @ response_ids zgo dr z \<and>
         effects z1 = effects z @ map TimerStarted (response_ids zgo dr z) \<and>
         initialized z1 = initialized z \<and> portWrite z1 = portWrite z"
proof (cases "\<not> dr \<and> response (command zgo) \<noteq> None")
  case True
  then obtain rss where rss: "response (command zgo) = Some rss" by auto
  with assms True have "register_responses zgo extra (timeout_or_default timeout) rss ([], [], z) = (ws, ids, z1)"
    by (simp add: response_waiters_def)
  from register_responses_facts [OF this] True rss show ?thesis
    by (simp add: Let_def response_ids_def)
next
  case False
  with assms show ?thesis
    by (auto simp: response_waiters_def response_ids_def)
qed

lemma status_waiter_facts:
  assumes "status_waiter c zgo timeout z = (rp, z1)"
  shows "rp = (if waitStatus (command zgo) \<noteq> Some False then Some (currentID (waitress z)) else None) \<and>
         map ID (pending (waitress z1)) = map ID (pending (waitress z)) @
            (if waitStatus (command zgo) \<noteq> Some False then [currentID (waitress z)] else []) \<and>
         effects z1 = effects z @
            (if waitStatus (command zgo) \<noteq> Some False then [TimerStarted (currentID (waitress z))] else []) \<and>
         initialized z1 = initialized z \<and> portWrite z1 = portWrite z"
proof (cases "waitStatus (command zgo) \<noteq> Some False")
  case True
  obtain p zb where w: "waitFor \<lparr>ziGateObject = zgo, rules = ruleStatus c zgo,
                                 extraParameters = JUndefined\<rparr>
                         (timeout_or_default timeout) z = (p, zb)"
    by (cases "waitFor \<lparr>ziGateObject = zgo, rules = ruleStatus c zgo,
                                 extraParameters = JUndefined\<rparr>
                         (timeout_or_default timeout) z")
  note f1 = waitFor_facts [OF w]
  note f2 = start_facts [OF waitFor_startable [OF w]]
  from assms True w have "rp = Some p \<and> z1 = start p zb"
    by (simp add: status_waiter_def)
  with f1 f2 True show ?thesis by simp
next
  case False
  with assms show ?thesis by (simp add: status_waiter_def)
qed

lemma sendCommand_start_success:
  assumes cr: "createRequest env cmd pl = Inr zgo"
    and tb: "toBuffer env zgo = Inr buf"
    and pw: "portWrite z = Some prt"
    and wr: "port_write env prt buf = None"
    and st: "sendCommand_start c env cmd pl timeout extra dr z = (prog, z1)"
  shows "prog = (if waitStatus (command zgo) \<noteq> Some False
                 then AwaitStatus (currentID (waitress z) + length (response_ids zgo dr z))
                        (response_ids zgo dr z) (response_ids zgo dr z)
                 else Settled (Race (response_ids zgo dr z))) \<and>
         effects z1 = effects z @ map TimerStarted (response_ids zgo dr z) @
            (if waitStatus (command zgo) \<noteq> Some False
             then [TimerStarted (currentID (waitress z) + length (response_ids zgo dr z))] else []) @
            [Wrote prt buf] \<and>
         map ID (pending (waitress z1)) = map ID (pending (waitress z)) @ response_ids zgo dr z @
            (if waitStatus (command zgo) \<noteq> Some False
             then [currentID (waitress z) + length (response_ids zgo dr z)] else []) \<and>
         initialized z1 = initialized z \<and> portWrite z1 = portWrite z"
proof -
  obtain ws ids za where r: "response_waiters zgo extra timeout dr z = (ws, ids, za)"
    by (cases "response_waiters zgo extra timeout dr z") auto
  obtain rp zb where s: "status_waiter c zgo timeout za = (rp, zb)"
    by (cases "status_waiter c zgo timeout za")
  note f1 = response_waiters_facts [OF r]
  note f2 = status_waiter_facts [OF s]
  from f1 f2 pw have pwb: "portWrite zb = Some prt" by simp
  have w: "write_port env buf zb = (None, perform (Wrote prt buf) zb)"
    by (simp add: write_port_def pwb wr)
  from st have "(prog, z1) =
      (case rp of
             Some p \<Rightarrow>
               if waitStatus (command zgo) \<noteq> Some False
               then (AwaitStatus p ws ids, perform (Wrote prt buf) zb)
               else (Settled (Race ws), perform (Wrote prt buf) zb)
           | None \<Rightarrow> (Settled (Race ws), perform (Wrote prt buf) zb))"
    by (simp add: sendCommand_start_def cr tb r s w)
  with f1 f2 show ?thesis
    by (simp add: perform_facts split: if_splits)
qed

lemma dispatch_facts:
  "dispatch c env msg zgo z = (r, z') \<Longrightarrow>
     initialized z' = initialized z \<and> portWrite z' = portWrite z \<and> waitress z' = waitress z \<and>
     (\<exists>new. effects z' = effects z @ new \<and> (\<forall>e \<in> set new. is_emission e))"
  by (auto simp: dispatch_def device_announce_from_indication_def emit_def perform_def
      split: if_splits sum.splits)

lemma resolve_waiters_facts:
  "initialized (resolve_waiters zgo z) = initialized z \<and>
   portWrite (resolve_waiters zgo z) = portWrite z \<and>
   (\<exists>new. effects (resolve_waiters zgo z) = effects z @ new \<and>
          (\<forall>e \<in> set new. \<not> fails_a_command e))"
  by (auto simp: resolve_waiters_def perform_def split: prod.splits option.splits)

lemma is_emission_no_failure: "is_emission e \<Longrightarrow> \<not> fails_a_command e"
  by (cases e) auto

lemma decode_and_dispatch_facts:
  assumes "decode_and_dispatch c env frame msg z = (r, z')"
  shows "initialized z' = initialized z \<and> portWrite z' = portWrite z \<and>
     (\<exists>new. effects z' = effects z @ new \<and> (\<forall>e \<in> set new. \<not> fails_a_command e))"
proof (cases "fromZiGateFrame env frame")
  case (Inl e)
  with assms show ?thesis by (auto simp: decode_and_dispatch_def)
next
  case (Inr zgo)
  with assms have d: "dispatch c env msg zgo (resolve_waiters zgo z) = (r, z')"
    by (simp add: decode_and_dispatch_def)
  from dispatch_facts [OF d] obtain new2 where
    n2: "effects z' = effects (resolve_waiters zgo z) @ new2" "\<forall>e \<in> set new2. is_emission e"
    and i2: "initialized z' = initialized (resolve_waiters zgo z)"
            "portWrite z' = portWrite (resolve_waiters zgo z)"
    by blast
  from resolve_waiters_facts [of zgo z] obtain new1 where
    n1: "effects (resolve_waiters zgo z) = effects z @ new1" "\<forall>e \<in> set new1. \<not> fails_a_command e"
    and i1: "initialized (resolve_waiters zgo z) = initialized z"
            "portWrite (resolve_waiters zgo z) = portWrite z"
    by blast
  have "effects z' = effects z @ (new1 @ new2)"
    using n1 n2 by simp
  moreover have "\<forall>e \<in> set (new1 @ new2). \<not> fails_a_command e"
    using n1 n2 is_emission_no_failure by auto
  ultimately show ?thesis using i1 i2 by metis
qed

lemma parse_and_handle_facts:
  assumes "parse_and_handle c env buffer z = (r, z')"
  shows "initialized z' = initialized z \<and> portWrite z' = portWrite z \<and>
     (\<exists>new. effects z' = effects z @ new \<and> (\<forall>e \<in> set new. \<not> fails_a_command e))"
proof (cases "newFrame env buffer")
  case (Inl e)
  with assms show ?thesis by (auto simp: parse_and_handle_def)
next
  case f: (Inr frame)
  show ?thesis
  proof (cases "readMsgCode env frame")
    case (Inl e)
    with f assms show ?thesis by (auto simp: parse_and_handle_def)
  next
    case (Inr msg)
    obtain r1 z1 where d: "decode_and_dispatch c env frame msg z = (r1, z1)"
      by (cases "decode_and_dispatch c env frame msg z")
    from decode_and_dispatch_facts [OF d] obtain new where
      n: "effects z1 = effects z @ new" "\<forall>e \<in> set new. \<not> fails_a_command e"
      and i: "initialized z1 = initialized z" "portWrite z1 = portWrite z"
      by blast
    show ?thesis
    proof (cases r1)
      case None
      with assms f Inr d have "z' = z1"
        by (simp add: parse_and_handle_def try_catch_def)
      with n i show ?thesis by blast
    next
      case (Some error)
      with assms f Inr d have z': "z' = logger_error (''Parsing error: '' @ error_to_string error) z1"
        by (simp add: parse_and_handle_def try_catch_def)
      have "effects z' = effects z @ (new @ [Logged LogError (''Parsing error: '' @ error_to_string error)])"
        by (simp add: z' logger_error_def perform_def n)
      moreover have "\<forall>e \<in> set (new @ [Logged LogError (''Parsing error: '' @ error_to_string error)]).
                       \<not> fails_a_command e"
        using n by simp
      moreover have "initialized z' = initialized z \<and> portWrite z' = portWrite z"
        by (simp add: z' logger_error_def perform_def i)
      ultimately show ?thesis by blast
    qed
  qed
qed

lemma onSerialData_facts:
  "fst (onSerialData c env buffer z) = None \<and>
   initialized (snd (onSerialData c env buffer z)) = initialized z \<and>
   portWrite (snd (onSerialData c env buffer z)) = portWrite z \<and>
   (\<exists>new. effects (snd (onSerialData c env buffer z)) = effects z @ new \<and>
          (\<forall>e \<in> set new. \<not> fails_a_command e))"
proof -
  obtain r1 z1 where p: "parse_and_handle c env buffer z = (r1, z1)"
    by (cases "parse_and_handle c env buffer z")
  from parse_and_handle_facts [OF p] obtain new where
    n: "effects z1 = effects z @ new" "\<forall>e \<in> set new. \<not> fails_a_command e"
    and i: "initialized z1 = initialized z" "portWrite z1 = portWrite z"
    by blast
  show ?thesis
  proof (cases r1)
    case None
    with p have "onSerialData c env buffer z = (None, z1)"
      by (simp add: onSerialData_def try_catch_def)
    with n i show ?thesis by simp
  next
    case (Some error)
    with p have o: "onSerialData c env buffer z =
        (None, logger_error (''Error while parsing Frame '' @ [CHR 0x27] @ error_to_string error @ [CHR 0x27]) z1)"
      by (simp add: onSerialData_def try_catch_def)
    have "effects (snd (onSerialData c env buffer z)) =
        effects z @ (new @ [Logged LogError (''Error while parsing Frame '' @ [CHR 0x27] @ error_to_string error @ [CHR 0x27])])"
      by (simp add: o logger_error_def perform_def n)
    moreover have "\<forall>e \<in> set (new @ [Logged LogError (''Error while parsing Frame '' @ [CHR 0x27] @ error_to_string error @ [CHR 0x27])]).
                       \<not> fails_a_command e"
      using n by simp
    moreover have "initialized (snd (onSerialData c env buffer z)) = initialized z \<and>
                   portWrite (snd (onSerialData c env buffer z)) = portWrite z"
      by (simp add: o logger_error_def perform_def i)
    moreover have "fst (onSerialData c env buffer z) = None"
      by (simp add: o)
    ultimately show ?thesis by blast
  qed
qed

lemma onSerialData_dropped:
  "(\<forall>e. newFrame env buffer = Inl e \<longrightarrow>
      snd (onSerialData c env buffer z) =
        logger_error (''Error while parsing Frame '' @ [CHR 0x27] @ error_to_string e @ [CHR 0x27]) z) \<and>
   (\<forall>frame e. newFrame env buffer = Inr frame \<and> readMsgCode env frame = Inl e \<longrightarrow>
      snd (onSerialData c env buffer z) =
        logger_error (''Error while parsing Frame '' @ [CHR 0x27] @ error_to_string e @ [CHR 0x27]) z) \<and>
   (\<forall>frame msg e. newFrame env buffer = Inr frame \<and> readMsgCode env frame = Inr msg \<and>
        fromZiGateFrame env frame = Inl e \<longrightarrow>
      snd (onSerialData c env buffer z) =
        logger_error (''Parsing error: '' @ error_to_string e) z)"
  by (simp add: onSerialData_def parse_and_handle_def decode_and_dispatch_def try_catch_def)


lemma pending_remove:
  "pending (waitress (remove i z)) = filter (\<lambda>x. ID x \<noteq> i) (pending (waitress z))"
proof (cases "list_ex (\<lambda>x. ID x = i) (pending (waitress z))")
  case True
  then show ?thesis by (simp add: remove_def perform_def waitress_remove_def)
next
  case False
  then have "\<forall>x \<in> set (pending (waitress z)). ID x \<noteq> i"
    by (simp add: list_ex_iff)
  then have "filter (\<lambda>x. ID x \<noteq> i) (pending (waitress z)) = pending (waitress z)"
    by (simp add: filter_id_conv)
  with False show ?thesis by (simp add: remove_def)
qed

lemma pending_fold_remove:
  "pending (waitress (fold remove ids z)) = filter (\<lambda>x. ID x \<notin> set ids) (pending (waitress z))"
proof (induction ids arbitrary: z)
  case Nil
  then show ?case by simp
next
  case (Cons i ids)
  have "filter (\<lambda>x. ID x \<notin> set ids) (filter (\<lambda>x. ID x \<noteq> i) (pending (waitress z))) =
        filter (\<lambda>x. ID x \<notin> set (i # ids)) (pending (waitress z))"
    by (induction "pending (waitress z)") auto
  with Cons.IH [of "remove i z"] show ?case
    by (simp add: pending_remove)
qed

lemma sendCommand_start_AwaitStatus:
  assumes st: "sendCommand_start c env cmd pl timeout extra dr z = (AwaitStatus p ws ids, z1)"
  shows "\<exists>zgo buf prt. createRequest env cmd pl = Inr zgo \<and> toBuffer env zgo = Inr buf \<and>
           portWrite z = Some prt \<and> port_write env prt buf = None"
proof (cases "createRequest env cmd pl")
  case (Inl e)
  with st show ?thesis
    by (simp add: sendCommand_start_def split: prod.splits)
next
  case cr: (Inr zgo)
  show ?thesis
  proof (cases "toBuffer env zgo")
    case (Inl e)
    with st cr show ?thesis
      by (simp add: sendCommand_start_def split: prod.splits)
  next
    case tb: (Inr buf)
    obtain ws0 ids0 za where r: "response_waiters zgo extra timeout dr z = (ws0, ids0, za)"
      by (cases "response_waiters zgo extra timeout dr z") auto
    obtain rp zb where s: "status_waiter c zgo timeout za = (rp, zb)"
      by (cases "status_waiter c zgo timeout za")
    from response_waiters_facts [OF r] status_waiter_facts [OF s]
    have pwb: "portWrite zb = portWrite z" by simp
    show ?thesis
    proof (cases "portWrite z")
      case None
      with st cr tb r s pwb show ?thesis
        by (simp add: sendCommand_start_def write_port_def split: prod.splits)
    next
      case pw: (Some prt)
      show ?thesis
      proof (cases "port_write env prt buf")
        case None
        with cr tb pw show ?thesis by simp
      next
        case (Some e)
        with st cr tb r s pwb pw show ?thesis
          by (simp add: sendCommand_start_def write_port_def split: prod.splits)
      qed
    qed
  qed
qed

lemma sendCommand_start_registered:
  assumes st: "sendCommand_start c env cmd pl timeout extra dr z = (AwaitStatus p ws ids, z1)"
  shows "ws = ids \<and> map ID (pending (waitress z1)) = map ID (pending (waitress z)) @ ids @ [p]"
proof -
  from sendCommand_start_AwaitStatus [OF st] obtain zgo buf prt where
    h: "createRequest env cmd pl = Inr zgo" "toBuffer env zgo = Inr buf"
       "portWrite z = Some prt" "port_write env prt buf = None"
    by blast
  from sendCommand_start_success [OF h st] show ?thesis
    by (simp split: if_splits)
qed

lemmas send_defs = sendCommand_def sendCommand_start_def sendCommand_resume_def sendCommand_catch_def
  response_waiters_def status_waiter_def write_port_def waitFor_def waitress_waitFor_def
  start_def timer_startable_def waitress_start_def remove_def waitress_remove_def perform_def
  logger_error_def timeout_or_default_def timeouts_default_def error_to_string_def
  resolve_waiters_def waitress_resolve_def

lemmas example_send_defs = example_env_def example_catalog_def status_frame_def open_serial_def
  rule_version_list_def example_constants_def no_metadata_def

lemma example_start:
  "sendCommand_start example_constants (example_env inbound) 16 JUndefined None JUndefined False open_serial =
     (AwaitStatus 1 [0] [0], example_suspended)"
  by (simp add: send_defs example_env_def example_catalog_def open_serial_def example_suspended_def
      example_request16_def)

lemma example_status_arrives:
  "map ID (pending (waitress (resolve_waiters (status_frame 16 st) example_suspended))) = [0]"
  by (simp add: resolve_waiters_def waitress_resolve_def validator_defs example_suspended_def
        example_request16_def ruleStatus_def rule_version_list_def status_frame_def
        example_constants_def perform_def open_serial_def)

subsection \<open>The rule matcher\<close>

text \<open>
  C4, as the specification states it: a rule whose resolved expected value or resolved
  received value is undefined does not match. The code has no test for undefined: the
  verdict is the comparator's. Here the expected path and the received path both
  resolve to undefined, the comparator is \<open>equal\<close>, and the rule matches.
\<close>

theorem validator_undefined_counterexample:
  "expectedValue (example_matcher [rule_both_undefined]) rule_both_undefined = Inr JUndefined \<and>
   receivedValue example_status rule_both_undefined = Inr JUndefined \<and>
   validator example_status (example_matcher [rule_both_undefined]) rule_both_undefined"
  by (simp add: example_defs validator_defs)

text \<open>
  C4, amended: with the comparator \<open>equal\<close>, a rule does not match when exactly one
  of its resolved expected value and its resolved received value is undefined (the
  other one is defined, or resolving it throws); and with any comparator, when
  resolving or comparing throws, the validator returns false for the rule instead of
  throwing.
\<close>

theorem validator_one_undefined:
  "(matcher rule = equal_js \<and>
    (expectedValue m rule = Inr JUndefined \<and> receivedValue received rule \<noteq> Inr JUndefined \<or>
     expectedValue m rule \<noteq> Inr JUndefined \<and> receivedValue received rule = Inr JUndefined)
    \<longrightarrow> \<not> validator received m rule) \<and>
   ((\<exists>e. validator_try received m rule = Inl e) \<longrightarrow> \<not> validator received m rule)"
  by (auto simp: validator_def validator_try_def equal_js_def strict_equals_undefined
      strict_equals_undefined2 split: sum.splits)

theorem validator_one_undefined_witness:
  "matcher rule_missing_received = equal_js \<and>
   expectedValue (example_matcher []) rule_missing_received = Inr (JNum 5) \<and>
   receivedValue example_status rule_missing_received = Inr JUndefined \<and>
   \<not> validator example_status (example_matcher []) rule_missing_received \<and>
   validator_try example_status (example_matcher []) rule_broken_path = Inl (JsError ''Error'' ''boom'') \<and>
   \<not> validator example_status (example_matcher []) rule_broken_path"
  using validator_one_undefined [of rule_missing_received "example_matcher []" example_status]
    validator_one_undefined [of rule_broken_path "example_matcher []" example_status]
  by (simp add: example_defs validator_defs)

text \<open>
  C5: the matcher is satisfied if and only if every rule of its rule set passes. A rule
  passes if and only if its expected value and its received value resolve and its
  comparator returns true on them. So a rule does not pass when resolving its expected
  value, resolving its received value or applying its comparator throws: the exception
  does not leave the validator.
\<close>

theorem waitressValidator_all_rules:
  "waitressValidator received m = (\<forall>rule \<in> set (rules m). validator received m rule) \<and>
   (\<forall>rule. validator received m rule =
      (\<exists>ev rv. expectedValue m rule = Inr ev \<and> receivedValue received rule = Inr rv \<and>
               matcher rule ev rv = Inr True)) \<and>
   (\<forall>rule. (\<exists>e. expectedValue m rule = Inl e) \<longrightarrow> \<not> validator received m rule) \<and>
   (\<forall>rule. (\<exists>e. receivedValue received rule = Inl e) \<longrightarrow> \<not> validator received m rule) \<and>
   (\<forall>rule ev rv. expectedValue m rule = Inr ev \<and> receivedValue received rule = Inr rv \<and>
       (\<exists>e. matcher rule ev rv = Inl e) \<longrightarrow> \<not> validator received m rule)"
proof -
  have all: "waitressValidator received m = (\<forall>rule \<in> set (rules m). validator received m rule)"
    by (simp add: waitressValidator_def list_all_iff)
  have verdict: "validator received m rule =
      (\<exists>ev rv. expectedValue m rule = Inr ev \<and> receivedValue received rule = Inr rv \<and>
               matcher rule ev rv = Inr True)" for rule
    by (auto simp: validator_def validator_try_def split: sum.splits)
  from all verdict show ?thesis
    by auto
qed

theorem waitressValidator_all_rules_witness:
  "waitressValidator example_status (example_matcher (ruleStatus example_constants example_request)) \<and>
   expectedValue (example_matcher [rule_packet_type, rule_missing_received]) rule_packet_type =
     Inr (JNum 16) \<and>
   receivedValue example_status rule_packet_type = Inr (JNum 16) \<and>
   matcher rule_packet_type (JNum 16) (JNum 16) = Inr True \<and>
   validator example_status (example_matcher [rule_packet_type, rule_missing_received]) rule_packet_type \<and>
   expectedValue (example_matcher [rule_packet_type, rule_missing_received]) rule_missing_received =
     Inr (JNum 5) \<and>
   receivedValue example_status rule_missing_received = Inr JUndefined \<and>
   matcher rule_missing_received (JNum 5) JUndefined = Inr False \<and>
   \<not> validator example_status (example_matcher [rule_packet_type, rule_missing_received])
       rule_missing_received \<and>
   \<not> waitressValidator example_status (example_matcher [rule_packet_type, rule_missing_received]) \<and>
   receivedValue example_status rule_broken_path = Inl (JsError ''Error'' ''boom'') \<and>
   \<not> validator example_status (example_matcher [rule_broken_path]) rule_broken_path \<and>
   \<not> waitressValidator example_status
       (example_matcher (ruleStatus example_constants example_request @ [rule_broken_path])) \<and>
   expectedValue (example_matcher [rule_throwing_comparator]) rule_throwing_comparator = Inr (JNum 32768) \<and>
   receivedValue example_status rule_throwing_comparator = Inr (JNum 32768) \<and>
   \<not> validator example_status (example_matcher [rule_throwing_comparator]) rule_throwing_comparator"
  using waitressValidator_all_rules [of example_status "example_matcher [rule_broken_path]"]
    waitressValidator_all_rules [of example_status "example_matcher [rule_throwing_comparator]"]
    waitressValidator_all_rules [of example_status
      "example_matcher [rule_packet_type, rule_missing_received]"]
  by (simp add: example_defs validator_defs ruleStatus_def)

subsection \<open>The connection's end\<close>

text \<open>
  C7, as the specification states it: every close event and every error event of the
  transport sets \<open>initialized\<close> to false and emits the close event. On an open
  instance the handler of the serial port's error event leaves \<open>initialized\<close> true
  and only writes a log line.
\<close>

theorem onPortError_counterexample:
  "initialized (onPortError unplugged open_serial) \<and>
   effects (onPortError unplugged open_serial) = [Logged LogError ''Port error: Error: device unplugged'']"
  by (simp add: onPortError_def logger_error_def perform_def open_serial_def unplugged_def
      error_to_string_def)

text \<open>
  C7, amended: the handler of the transport's close event sets \<open>initialized\<close> to
  false, whatever the state, and emits the close event. The handler of the serial
  port's error event writes a log line, leaves \<open>initialized\<close> as it is and emits
  nothing. The handler of the socket's error event writes a log line and sets
  \<open>initialized\<close> to false, and emits nothing.
\<close>

theorem transport_events:
  "initialized (onPortClose z) = False \<and>
   effects (onPortClose z) = effects z @ [Emitted EvClose] \<and>
   initialized (onPortError error z) = initialized z \<and>
   effects (onPortError error z) = effects z @ [Logged LogError (''Port error: '' @ error_to_string error)] \<and>
   initialized (socketPort_on_error error z) = False \<and>
   effects (socketPort_on_error error z) =
     effects z @ [Logged LogError (''Socket error '' @ error_to_string error)]"
  by (simp add: onPortClose_def onPortError_def socketPort_on_error_def emit_def logger_error_def
      perform_def)

text \<open>
  C8, as the specification states it: every call of \<open>close\<close> emits the close event
  exactly once. On an open serial instance whose port closes and fires its close
  event, \<open>onPortClose\<close> emits the event while \<open>close\<close> is suspended on line 163, and
  line 174 emits it again: by the time the call completes the event has been emitted
  twice.
\<close>

theorem close_emits_twice_counterexample:
  "fst (close port_closes open_serial) = Inr () \<and>
   effects (snd (close port_closes open_serial)) =
     [Logged LogInfo ''closing'', QueueCleared, Emitted EvClose, Emitted EvClose] \<and>
   count_list (effects (snd (close port_closes open_serial))) (Emitted EvClose) = 2"
  by (simp add: close_def Let_def emit_def logger_info_def perform_def open_serial_def
      port_closes_def onPortClose_def)

text \<open>
  C8, amended: every call of \<open>close\<close> emits the close event itself exactly once, as
  the last thing it does, on every path: all it does before is write a log line and
  clear the queue, and the rest is what releasing the port made happen. When releasing
  the serial port fails, \<open>close\<close> throws that error after the emission. What the
  listeners emit while the port is released comes in addition: when the port fires
  its close event, \<open>onPortClose\<close> emits the event too, and the driver has emitted it
  twice when the call completes.
\<close>

theorem close_emits_last:
  "(\<not> initialized z \<longrightarrow>
      fst (close env z) = Inr () \<and>
      effects (snd (close env z)) =
        effects z @ [Logged LogInfo ''closing'', QueueCleared, Emitted EvClose]) \<and>
   (initialized z \<and> serialPort z \<longrightarrow>
      (\<forall>z3 r during.
         asyncFlushAndClose env (releasing z) = (z3, r) \<and>
         effects z3 = effects (releasing z) @ during \<longrightarrow>
           fst (close env z) = (case r of Some error \<Rightarrow> Inl error | None \<Rightarrow> Inr ()) \<and>
           effects (snd (close env z)) =
             effects z @ [Logged LogInfo ''closing'', QueueCleared] @ during @ [Emitted EvClose])) \<and>
   (initialized z \<and> serialPort z \<and>
    asyncFlushAndClose env (releasing z) = (onPortClose (releasing z), None) \<longrightarrow>
      effects (snd (close env z)) =
        effects z @ [Logged LogInfo ''closing'', QueueCleared, Emitted EvClose, Emitted EvClose]) \<and>
   (initialized z \<and> \<not> serialPort z \<longrightarrow>
      (\<forall>during.
         effects (if socketPort z then destroy env (releasing z) else releasing z) =
           effects (releasing z) @ during \<longrightarrow>
           fst (close env z) = Inr () \<and>
           effects (snd (close env z)) =
             effects z @ [Logged LogInfo ''closing'', QueueCleared] @ during @ [Emitted EvClose]))"
proof -
  have r: "effects (releasing z) = effects z @ [Logged LogInfo ''closing'', QueueCleared]"
    "serialPort (releasing z) = serialPort z" "socketPort (releasing z) = socketPort z"
    by (simp_all add: releasing_def logger_info_def perform_def)
  have c: "initialized z \<Longrightarrow> close env z =
      (if serialPort z
       then (case asyncFlushAndClose env (releasing z) of
               (z3, Some error) \<Rightarrow> (Inl error, emit EvClose z3)
             | (z3, None) \<Rightarrow> (Inr (), emit EvClose z3))
       else (Inr (), emit EvClose (if socketPort z then destroy env (releasing z) else releasing z)))"
    by (simp add: close_def Let_def releasing_def logger_info_def perform_def)
  have a: "\<not> initialized z \<Longrightarrow> fst (close env z) = Inr () \<and>
      effects (snd (close env z)) =
        effects z @ [Logged LogInfo ''closing'', QueueCleared, Emitted EvClose]"
    by (simp add: close_def Let_def emit_def logger_info_def perform_def)
  have b: "fst (close env z) = (case r of Some error \<Rightarrow> Inl error | None \<Rightarrow> Inr ()) \<and>
           effects (snd (close env z)) =
             effects z @ [Logged LogInfo ''closing'', QueueCleared] @ during @ [Emitted EvClose]"
    if "initialized z" "serialPort z" "asyncFlushAndClose env (releasing z) = (z3, r)"
       "effects z3 = effects (releasing z) @ during" for z3 r during
    using that r by (simp add: c emit_def perform_def split: option.splits)
  have o: "effects (snd (close env z)) =
        effects z @ [Logged LogInfo ''closing'', QueueCleared, Emitted EvClose, Emitted EvClose]"
    if "initialized z" "serialPort z"
       "asyncFlushAndClose env (releasing z) = (onPortClose (releasing z), None)"
    using that r by (simp add: c emit_def perform_def onPortClose_def)
  have d: "fst (close env z) = Inr () \<and>
           effects (snd (close env z)) =
             effects z @ [Logged LogInfo ''closing'', QueueCleared] @ during @ [Emitted EvClose]"
    if "initialized z" "\<not> serialPort z"
       "effects (if socketPort z then destroy env (releasing z) else releasing z) =
           effects (releasing z) @ during" for during
    using that r by (simp add: c emit_def perform_def)
  from a b o d show ?thesis
    by blast
qed

theorem close_emits_last_witness:
  "asyncFlushAndClose (port_fails unplugged) (releasing open_serial) =
     (releasing open_serial, Some unplugged) \<and>
   fst (close (port_fails unplugged) open_serial) = Inl unplugged \<and>
   effects (snd (close (port_fails unplugged) open_serial)) =
     [Logged LogInfo ''closing'', QueueCleared, Emitted EvClose] \<and>
   asyncFlushAndClose port_closes (releasing open_serial) = (onPortClose (releasing open_serial), None) \<and>
   effects (snd (close port_closes open_serial)) =
     [Logged LogInfo ''closing'', QueueCleared, Emitted EvClose, Emitted EvClose] \<and>
   \<not> initialized (snd (close port_closes open_serial)) \<and>
   effects (snd (close port_closes (snd (close port_closes open_serial)))) =
     [Logged LogInfo ''closing'', QueueCleared, Emitted EvClose, Emitted EvClose,
      Logged LogInfo ''closing'', QueueCleared, Emitted EvClose] \<and>
   fst (close port_closes open_socket) = Inr () \<and>
   effects (snd (close port_closes open_socket)) =
     [Logged LogInfo ''closing'', QueueCleared, Emitted EvClose]"
  using close_emits_last [of open_serial "port_fails unplugged"]
    close_emits_last [of open_serial port_closes]
    close_emits_last [of "snd (close port_closes open_serial)" port_closes]
    close_emits_last [of open_socket port_closes]
  by (simp add: close_def Let_def emit_def logger_info_def perform_def open_serial_def
      open_socket_def port_closes_def port_fails_def onPortClose_def releasing_def)

subsection \<open>Inbound frames\<close>

text \<open>
  C9: the handler of an inbound chunk never throws. It leaves \<open>initialized\<close> and
  the port as they are, and nothing it does rejects a waiter. When the frame cannot be
  parsed, its code cannot be read or it cannot be decoded, all the handler does is
  write one error line: the registry is untouched and nothing is emitted.
\<close>

theorem onSerialData_contains_failures:
  "fst (onSerialData c env buffer z) = None \<and>
   initialized (snd (onSerialData c env buffer z)) = initialized z \<and>
   portWrite (snd (onSerialData c env buffer z)) = portWrite z \<and>
   (\<exists>new. effects (snd (onSerialData c env buffer z)) = effects z @ new \<and>
          (\<forall>e \<in> set new. \<not> fails_a_command e)) \<and>
   (\<forall>e. newFrame env buffer = Inl e \<longrightarrow>
      snd (onSerialData c env buffer z) =
        logger_error (''Error while parsing Frame '' @ [CHR 0x27] @ error_to_string e @ [CHR 0x27]) z) \<and>
   (\<forall>frame e. newFrame env buffer = Inr frame \<and> readMsgCode env frame = Inl e \<longrightarrow>
      snd (onSerialData c env buffer z) =
        logger_error (''Error while parsing Frame '' @ [CHR 0x27] @ error_to_string e @ [CHR 0x27]) z) \<and>
   (\<forall>frame msg e. newFrame env buffer = Inr frame \<and> readMsgCode env frame = Inr msg \<and>
        fromZiGateFrame env frame = Inl e \<longrightarrow>
      snd (onSerialData c env buffer z) =
        logger_error (''Parsing error: '' @ error_to_string e) z)"
  using onSerialData_facts [of c env buffer z] onSerialData_dropped [of env buffer c z]
  by blast

theorem onSerialData_contains_failures_witness:
  "newFrame example_codec [] = Inl (JsError ''Error'' ''empty frame'') \<and>
   onSerialData example_constants example_codec [] open_serial =
     (None, logger_error (''Error while parsing Frame '' @ [CHR 0x27] @ ''Error: empty frame'' @ [CHR 0x27])
              open_serial) \<and>
   newFrame example_codec [1, 2] = Inr [1, 2] \<and>
   readMsgCode example_codec [1, 2] = Inr 32768 \<and>
   fromZiGateFrame example_codec [1, 2] = Inl (JsError ''Error'' ''short frame'') \<and>
   onSerialData example_constants example_codec [1, 2] open_serial =
     (None, logger_error ''Parsing error: Error: short frame'' open_serial)"
  using onSerialData_contains_failures [of example_constants example_codec "[]" open_serial]
    onSerialData_contains_failures [of example_constants example_codec "[1, 2]" open_serial]
  by (simp add: example_codec_def error_to_string_def prod_eq_iff)

subsection \<open>sendCommand\<close>

text \<open>
  C1: when a call of \<open>sendCommand\<close> waits for the status (the command's
  \<open>waitStatus\<close> is not false, and the request was built, encoded and written), and
  the status promise is fulfilled with an object whose \<^verbatim>\<open>payload.status\<close> is not
  the success code, the call rejects with that very object, and no waiter with the id
  of one of its response waiters is left in the registry. \<open>waitersId\<close> are the
  response waiters of the call: what it registered before it was suspended is them and
  then the status waiter.
\<close>

theorem sendCommand_status_failure:
  assumes st: "sendCommand_start c env cmd pl timeout extra disableResponse z =
                 (AwaitStatus p waiters waitersId, z1)"
    and aw: "await_settlement env p z1 = (z2, Some (Fulfilled statusResponse))"
    and gs: "get_member (payload statusResponse) ''status'' = Inr status"
    and ne: "\<not> strict_equals status (JNum (E_SL_MSG_STATUS_SUCCESS c))"
  shows "fst (sendCommand c env cmd pl timeout extra disableResponse z) =
           RejectsWithObject statusResponse \<and>
         (\<forall>x \<in> set (pending (waitress (snd (sendCommand c env cmd pl timeout extra disableResponse z)))).
            ID x \<notin> set waitersId) \<and>
         map ID (pending (waitress z1)) = map ID (pending (waitress z)) @ waitersId @ [p]"
proof -
  have "sendCommand c env cmd pl timeout extra disableResponse z =
          (RejectsWithObject statusResponse, fold remove waitersId z2)"
    by (simp add: sendCommand_def st aw sendCommand_resume_def gs ne)
  then show ?thesis
    using sendCommand_start_registered [OF st]
    by (simp add: pending_fold_remove)
qed

theorem sendCommand_status_failure_witness:
  "fst (sendCommand example_constants (example_env (status_frame 16 1)) 16 JUndefined None JUndefined
          False open_serial) = RejectsWithObject (status_frame 16 1) \<and>
   map ID (pending (waitress example_suspended)) = [0, 1] \<and>
   map ID (pending (waitress (snd (sendCommand example_constants (example_env (status_frame 16 1)) 16
          JUndefined None JUndefined False open_serial)))) = []"
proof -
  let ?env = "example_env (status_frame 16 1)"
  have h1: "sendCommand_start example_constants ?env 16 JUndefined None JUndefined False open_serial =
              (AwaitStatus 1 [0] [0], example_suspended)"
    by (rule example_start)
  have h2: "await_settlement ?env 1 example_suspended =
              (resolve_waiters (status_frame 16 1) example_suspended, Some (Fulfilled (status_frame 16 1)))"
    by (simp add: example_env_def)
  have h3: "get_member (payload (status_frame 16 1)) ''status'' = Inr (JNum 1)"
    by (simp add: status_frame_def)
  have h4: "\<not> strict_equals (JNum 1) (JNum (E_SL_MSG_STATUS_SUCCESS example_constants))"
    by (simp add: example_constants_def)
  have s: "snd (sendCommand example_constants ?env 16 JUndefined None JUndefined False open_serial) =
          fold remove [0] (resolve_waiters (status_frame 16 1) example_suspended)"
    by (simp only: sendCommand_def h1 h2 sendCommand_resume_def h3 h4 prod.case progress.case
        option.case settlement.case sum.case if_True if_False snd_conv simp_thms)
  have "map ID (pending (waitress (fold remove [0] (resolve_waiters (status_frame 16 1) example_suspended)))) =
        filter (\<lambda>i. i \<noteq> 0) (map ID (pending (waitress (resolve_waiters (status_frame 16 1) example_suspended))))"
    by (simp add: pending_remove filter_map comp_def)
  then have "map ID (pending (waitress (snd (sendCommand example_constants ?env 16 JUndefined None JUndefined
      False open_serial)))) = []"
    by (simp add: s example_status_arrives)
  then show ?thesis
    using sendCommand_status_failure [OF h1 h2 h3 h4] by (simp add: open_serial_def)
qed

text \<open>
  C2, at a failing input: the call is made on an instance that \<open>close\<close> has left
  without a port (the serial port has closed and fired its close event), for a command with one response rule-set that wants the status. The
  write throws, the call rejects with the wrapped TypeError, and the response waiter 0
  and the status waiter 1 are still in the registry, with their timers started and
  never cleared.
\<close>

theorem sendCommand_write_failure_keeps_waiters:
  "portWrite (snd (close port_closes open_serial)) = None \<and>
   fst (sendCommand example_constants (example_env example_status) 16 JUndefined None JUndefined False
          (snd (close port_closes open_serial))) =
     RejectsWithError (JsError ''Error''
       (''sendCommand error: TypeError: Cannot read properties of undefined (reading '' @
        [CHR 0x27] @ ''write'' @ [CHR 0x27] @ '')'')) \<and>
   map ID (pending (waitress (snd (sendCommand example_constants (example_env example_status) 16
          JUndefined None JUndefined False (snd (close port_closes open_serial)))))) = [0, 1] \<and>
   map timer_started (pending (waitress (snd (sendCommand example_constants (example_env example_status)
          16 JUndefined None JUndefined False (snd (close port_closes open_serial)))))) = [True, True] \<and>
   filter (\<lambda>e. e = TimerCleared 0 \<or> e = TimerCleared 1)
     (effects (snd (sendCommand example_constants (example_env example_status) 16 JUndefined None
          JUndefined False (snd (close port_closes open_serial))))) = []"
  by (simp add: send_defs close_def Let_def emit_def logger_info_def example_env_def
      example_catalog_def open_serial_def port_closes_def onPortClose_def)


text \<open>
  C3, as the specification states it: the response waiters are registered before the
  write without their timers, which start at the racing step. For a command with one
  response rule-set that wants the status, the timer of the response waiter 0 is
  started before the status waiter 1 is registered and before the write.
\<close>

theorem sendCommand_starts_timers_counterexample:
  "sendCommand_start example_constants (example_env (status_frame 16 0)) 16 JUndefined None
          JUndefined False open_serial = (AwaitStatus 1 [0] [0], example_suspended) \<and>
   effects example_suspended = [TimerStarted 0, TimerStarted 1, Wrote SerialPortRef [1, 2, 3]] \<and>
   map ID (pending (waitress example_suspended)) = [0, 1] \<and>
   map timer_started (pending (waitress example_suspended)) = [True, True]"
  by (simp add: example_start) (simp add: example_suspended_def)

text \<open>
  C3, amended: for a call with \<open>disableResponse\<close> false on a command that declares
  response rule-sets, whose request is built, encoded and written, one response waiter
  per rule-set is registered before the write, and the timer of each is started at its
  registration: before the status waiter is registered and started, and before the
  write. The racing step starts no timer: it leaves the instance as it is.
\<close>

theorem sendCommand_timers_at_registration:
  assumes cr: "createRequest env cmd pl = Inr zgo"
    and tb: "toBuffer env zgo = Inr buf"
    and rs: "response (command zgo) = Some rss"
    and pw: "portWrite z = Some prt"
    and wr: "port_write env prt buf = None"
  shows "length (response_ids zgo False z) = length rss \<and>
         fst (sendCommand_start c env cmd pl timeout extra False z) =
           (if waitStatus (command zgo) \<noteq> Some False
            then AwaitStatus (currentID (waitress z) + length rss)
                   (response_ids zgo False z) (response_ids zgo False z)
            else Settled (Race (response_ids zgo False z))) \<and>
         map ID (pending (waitress (snd (sendCommand_start c env cmd pl timeout extra False z)))) =
           map ID (pending (waitress z)) @ response_ids zgo False z @
           (if waitStatus (command zgo) \<noteq> Some False then [currentID (waitress z) + length rss] else []) \<and>
         effects (snd (sendCommand_start c env cmd pl timeout extra False z)) =
           effects z @ map TimerStarted (response_ids zgo False z) @
           (if waitStatus (command zgo) \<noteq> Some False
            then [TimerStarted (currentID (waitress z) + length rss)] else []) @
           [Wrote prt buf] \<and>
         (\<forall>settled ws ids z2 r. fst (sendCommand_resume c settled ws ids z2) = Race r \<longrightarrow>
            snd (sendCommand_resume c settled ws ids z2) = z2)"
proof -
  have l: "length (response_ids zgo False z) = length rss"
    by (simp add: response_ids_def rs)
  obtain prog z1 where st: "sendCommand_start c env cmd pl timeout extra False z = (prog, z1)"
    by (cases "sendCommand_start c env cmd pl timeout extra False z")
  have r: "\<forall>settled ws ids z2 r. fst (sendCommand_resume c settled ws ids z2) = Race r \<longrightarrow>
            snd (sendCommand_resume c settled ws ids z2) = z2"
    by (auto simp: sendCommand_resume_def sendCommand_catch_def
        split: option.splits settlement.splits sum.splits if_splits)
  from sendCommand_start_success [OF cr tb pw wr st] l r show ?thesis
    by (simp add: st)
qed

theorem sendCommand_timers_at_registration_witness:
  "fst (sendCommand_start example_constants (example_env example_status) 18 JUndefined None JUndefined
          False open_serial) = Settled (Race [0]) \<and>
   map ID (pending (waitress (snd (sendCommand_start example_constants (example_env example_status) 18
          JUndefined None JUndefined False open_serial)))) = [0] \<and>
   effects (snd (sendCommand_start example_constants (example_env example_status) 18 JUndefined None
          JUndefined False open_serial)) = [TimerStarted 0, Wrote SerialPortRef [1, 2, 3]]"
  using sendCommand_timers_at_registration [of "example_env example_status" 18 JUndefined
      "\<lparr>oid = 1, code = 18, payload = JUndefined,
        command = \<lparr>response = Some [[rule_version_list]], waitStatus = Some False\<rparr>\<rparr>"
      "[1, 2, 3]" "[[rule_version_list]]" open_serial SerialPortRef example_constants None JUndefined]
  by (simp add: example_env_def example_catalog_def open_serial_def response_ids_def)

text \<open>
  C6: when a call of \<open>sendCommand\<close> that registered no response waiter waits for
  the status, and the status promise is fulfilled with an object whose
  \<^verbatim>\<open>payload.status\<close> is the success code, the call resolves with that very
  object. The status waiter is all that the call registered.
\<close>

theorem sendCommand_status_success_alone:
  assumes st: "sendCommand_start c env cmd pl timeout extra disableResponse z =
                 (AwaitStatus p [] waitersId, z1)"
    and aw: "await_settlement env p z1 = (z2, Some (Fulfilled statusResponse))"
    and gs: "get_member (payload statusResponse) ''status'' = Inr status"
    and eq: "strict_equals status (JNum (E_SL_MSG_STATUS_SUCCESS c))"
  shows "sendCommand c env cmd pl timeout extra disableResponse z = (Resolves statusResponse, z2) \<and>
         map ID (pending (waitress z1)) = map ID (pending (waitress z)) @ [p]"
proof -
  have "sendCommand c env cmd pl timeout extra disableResponse z = (Resolves statusResponse, z2)"
    by (simp add: sendCommand_def st aw sendCommand_resume_def gs eq)
  then show ?thesis
    using sendCommand_start_registered [OF st] by simp
qed

theorem sendCommand_status_success_alone_witness:
  "sendCommand example_constants (example_env (status_frame 17 0)) 17 JUndefined None JUndefined
          False open_serial =
     (Resolves (status_frame 17 0),
      resolve_waiters (status_frame 17 0)
        (snd (sendCommand_start example_constants (example_env (status_frame 17 0)) 17 JUndefined None
           JUndefined False open_serial))) \<and>
   pending (waitress (snd (sendCommand example_constants (example_env (status_frame 17 0)) 17 JUndefined
      None JUndefined False open_serial))) = []"
proof -
  let ?env = "example_env (status_frame 17 0)"
  define z1 where "z1 = snd (sendCommand_start example_constants ?env 17 JUndefined None JUndefined False open_serial)"
  have z1: "z1 = open_serial\<lparr>waitress :=
        \<lparr>pending =
           [\<lparr>ID = 0,
             waiter_matcher = \<lparr>ziGateObject = \<lparr>oid = 1, code = 17, payload = JUndefined,
                  command = \<lparr>response = None, waitStatus = None\<rparr>\<rparr>,
                rules = ruleStatus example_constants \<lparr>oid = 1, code = 17, payload = JUndefined,
                  command = \<lparr>response = None, waitStatus = None\<rparr>\<rparr>,
                extraParameters = JUndefined\<rparr>,
             deadline = 10000, timer_started = True\<rparr>],
         currentID = 1\<rparr>,
        effects := [TimerStarted 0, Wrote SerialPortRef [1, 2, 3]]\<rparr>"
    unfolding z1_def
    by (simp add: send_defs example_env_def example_catalog_def open_serial_def)
  have h1: "sendCommand_start example_constants ?env 17 JUndefined None JUndefined False open_serial =
              (AwaitStatus 0 [] [], z1)"
    unfolding z1
    by (simp add: send_defs example_env_def example_catalog_def open_serial_def)
  have h2: "await_settlement ?env 0 z1 =
              (resolve_waiters (status_frame 17 0) z1, Some (Fulfilled (status_frame 17 0)))"
    by (simp add: example_env_def)
  have h3: "get_member (payload (status_frame 17 0)) ''status'' = Inr (JNum 0)"
    by (simp add: status_frame_def)
  have h4: "strict_equals (JNum 0) (JNum (E_SL_MSG_STATUS_SUCCESS example_constants))"
    by (simp add: example_constants_def)
  have p: "pending (waitress (resolve_waiters (status_frame 17 0) z1)) = []"
    unfolding z1
    by (simp add: resolve_waiters_def waitress_resolve_def validator_defs
        ruleStatus_def status_frame_def example_constants_def perform_def open_serial_def)
  from sendCommand_status_success_alone [OF h1 h2 h3 h4] p show ?thesis
    by (simp add: z1_def)
qed


text \<open>
  C10: a call with \<open>disableResponse\<close> true on a command whose \<open>waitStatus\<close> is
  false, whose request is built, encoded and written, registers no waiter and returns
  the race over no promise, which never settles, however the waiters' promises settle.
\<close>

theorem sendCommand_races_nothing:
  assumes cr: "createRequest env cmd pl = Inr zgo"
    and tb: "toBuffer env zgo = Inr buf"
    and ws: "waitStatus (command zgo) = Some False"
    and pw: "portWrite z = Some prt"
    and wr: "port_write env prt buf = None"
  shows "sendCommand c env cmd pl timeout extra True z = (Race [], perform (Wrote prt buf) z) \<and>
         waitress (perform (Wrote prt buf) z) = waitress z \<and>
         (\<forall>settled. promise_race settled [] = None)"
  by (simp add: sendCommand_def sendCommand_start_def response_waiters_def status_waiter_def
      write_port_def perform_def cr tb ws pw wr)

theorem sendCommand_races_nothing_witness:
  "sendCommand example_constants (example_env example_status) 18 JUndefined None JUndefined True
     open_serial = (Race [], perform (Wrote SerialPortRef [1, 2, 3]) open_serial) \<and>
   pending (waitress (perform (Wrote SerialPortRef [1, 2, 3]) open_serial)) = [] \<and>
   promise_race (\<lambda>p. Some (0, Fulfilled example_status)) [] = None"
  using sendCommand_races_nothing [of "example_env example_status" 18 JUndefined
      "\<lparr>oid = 1, code = 18, payload = JUndefined,
        command = \<lparr>response = Some [[rule_version_list]], waitStatus = Some False\<rparr>\<rparr>"
      "[1, 2, 3]" open_serial SerialPortRef example_constants None JUndefined]
  by (simp add: example_env_def example_catalog_def open_serial_def perform_def)


end
